theory Spec2Isabelle
  imports Complex_Main
begin

section \<open>Device model (src/devices/smart_devices.py)\<close>

text \<open>
  Python integers are modelled as \<open>int\<close>. Values that the source computes with
  \<open>+= 0.5\<close> or with true division \<open>/\<close> (the thermostat temperatures, the window's
  light level) are modelled as exact rationals, which stand for finite numbers only.
  The double arithmetic of the source agrees with the rational one on half-integer
  temperatures of bounded size (\<open>exact_half_degrees\<close> below), the values that the
  constructor's 20 and the 0.5 steps produce; the properties of the thermostat step are
  stated for those states. Strings are byte lists.
\<close>

datatype DeviceType = LIGHT | THERMOSTAT | CAMERA | DOOR | WINDOW | FAN

datatype error = KeyError

subsection \<open>Formatting helpers for the f-strings\<close>

fun str_nat :: "nat \<Rightarrow> string" where
  "str_nat n = (if n < 10 then [char_of (48 + n)]
                else str_nat (n div 10) @ [char_of (48 + n mod 10)])"

declare str_nat.simps [simp del]

definition str_int :: "int \<Rightarrow> string" where
  "str_int i = (if i < 0 then CHR ''-'' # str_nat (nat (- i)) else str_nat (nat i))"

definition upper_char :: "char \<Rightarrow> char" where
  "upper_char c = (let n = (of_char c :: nat) in if 97 \<le> n \<and> n \<le> 122 then char_of (n - 32) else c)"

definition lower_char :: "char \<Rightarrow> char" where
  "lower_char c = (let n = (of_char c :: nat) in if 65 \<le> n \<and> n \<le> 90 then char_of (n + 32) else c)"

text \<open>\<open>str.capitalize()\<close> on ASCII text: first character upper case, the rest lower case.\<close>

definition capitalize :: "string \<Rightarrow> string" where
  "capitalize s = (case s of [] \<Rightarrow> [] | c # cs \<Rightarrow> upper_char c # map lower_char cs)"

subsection \<open>SmartDevice: the fields and methods every device inherits\<close>

record SmartDevice =
  device_id :: string
  status :: bool
  device_type :: DeviceType
  room :: string
  color :: string

definition status_color :: "bool \<Rightarrow> string" where
  "status_color b = (if b then ''#4CAF50'' else ''#F44336'')"

definition toggle_status :: "'a SmartDevice_scheme \<Rightarrow> bool \<times> 'a SmartDevice_scheme" where
  "toggle_status d = (\<not> status d, d\<lparr>status := \<not> status d\<rparr>)"

definition get_status_color :: "'a SmartDevice_scheme \<Rightarrow> string" where
  "get_status_color d = status_color (status d)"

definition get_status_text :: "'a SmartDevice_scheme \<Rightarrow> string" where
  "get_status_text d = (if status d then ''ON'' else ''OFF'')"

text \<open>The prefix \<open>f"{self.device_id} ({self.room}): "\<close> shared by every summary.\<close>

definition details_prefix :: "'a SmartDevice_scheme \<Rightarrow> string" where
  "details_prefix d = device_id d @ '' ('' @ room d @ ''): ''"

definition SmartDevice_get_details :: "'a SmartDevice_scheme \<Rightarrow> string" where
  "SmartDevice_get_details d = details_prefix d @ get_status_text d"

subsection \<open>SmartLight\<close>

record SmartLight = SmartDevice +
  brightness :: int
  color_temp :: int

definition light_colors :: "(int \<times> string) list" where
  "light_colors = [(3000, ''#FF9E80''), (4000, ''#FFECB3''), (5000, ''#E3F2FD''), (6000, ''#E1F5FE'')]"

text \<open>Python's \<open>min(xs, key=f)\<close> on a non-empty sequence: the first element of least key.\<close>

fun min_by :: "('a \<Rightarrow> int) \<Rightarrow> 'a \<Rightarrow> 'a list \<Rightarrow> 'a" where
  "min_by f best [] = best"
| "min_by f best (x # xs) = min_by f (if f x < f best then x else best) xs"

text \<open>
  The source takes the closest key of \<open>light_colors\<close> and then looks it up; the model
  takes the closest entry and returns its colour.
\<close>

definition update_light_color :: "SmartLight \<Rightarrow> SmartLight" where
  "update_light_color l =
     l\<lparr>color := snd (min_by (\<lambda>kv. \<bar>fst kv - color_temp l\<bar>) (hd light_colors) (tl light_colors))\<rparr>"

definition SmartLight_init :: "string \<Rightarrow> string \<Rightarrow> int \<Rightarrow> SmartLight" where
  "SmartLight_init did rm ct =
     update_light_color
       \<lparr>device_id = did, status = False, device_type = LIGHT, room = rm, color = ''#cccccc'',
        brightness = 0, color_temp = ct\<rparr>"

definition set_brightness :: "SmartLight \<Rightarrow> int \<Rightarrow> SmartLight" where
  "set_brightness l b =
     (let l1 = l\<lparr>brightness := b\<rparr>
      in if brightness l1 > 0 then l1\<lparr>status := True\<rparr>
         else if brightness l1 = 0 then l1\<lparr>status := False\<rparr>
         else l1)"

definition set_color_temp :: "SmartLight \<Rightarrow> int \<Rightarrow> SmartLight" where
  "set_color_temp l temp = update_light_color (l\<lparr>color_temp := max 3000 (min 6000 temp)\<rparr>)"

definition SmartLight_get_details :: "SmartLight \<Rightarrow> string" where
  "SmartLight_get_details l =
     (if \<not> status l then details_prefix l @ ''OFF''
      else details_prefix l @ str_int (brightness l) @ ''% - '' @ str_int (color_temp l) @ ''K'')"

subsection \<open>Thermostat\<close>

record Thermostat = SmartDevice +
  temperature :: rat
  target_temp :: rat
  mode :: string
  humidity :: int

definition temp_colors :: "string \<Rightarrow> string" where
  "temp_colors k =
     (if k = ''cold'' then ''#81D4FA''
      else if k = ''cool'' then ''#B3E5FC''
      else if k = ''neutral'' then ''#E1F5FE''
      else if k = ''warm'' then ''#FFE0B2''
      else ''#FFCCBC'')"

definition update_temp_color :: "Thermostat \<Rightarrow> Thermostat" where
  "update_temp_color t =
     (if temperature t < 16 then t\<lparr>color := temp_colors ''cold''\<rparr>
      else if temperature t < 19 then t\<lparr>color := temp_colors ''cool''\<rparr>
      else if temperature t < 23 then t\<lparr>color := temp_colors ''neutral''\<rparr>
      else if temperature t < 26 then t\<lparr>color := temp_colors ''warm''\<rparr>
      else t\<lparr>color := temp_colors ''hot''\<rparr>)"

definition Thermostat_init :: "string \<Rightarrow> string \<Rightarrow> Thermostat" where
  "Thermostat_init did rm =
     update_temp_color
       \<lparr>device_id = did, status = False, device_type = THERMOSTAT, room = rm, color = ''#cccccc'',
        temperature = 20, target_temp = 20, mode = ''heat'', humidity = 50\<rparr>"

definition set_temperature :: "Thermostat \<Rightarrow> rat \<Rightarrow> Thermostat" where
  "set_temperature t v = t\<lparr>target_temp := v, status := True\<rparr>"

definition set_mode :: "Thermostat \<Rightarrow> string \<Rightarrow> Thermostat" where
  "set_mode t m = (if m \<in> set [''heat'', ''cool'', ''auto''] then t\<lparr>mode := m\<rparr> else t)"

text \<open>
  The source computes \<open>self.temperature += 0.5\<close> on doubles. A half-integer of
  magnitude at most \<open>2 ^ 51\<close> is a double, and so is the result of adding or
  subtracting 0.5 to it (its magnitude is below \<open>2 ^ 52\<close>, where doubles are half a
  unit apart), so on such a temperature the double step is the exact step; the
  comparison with a finite target is exact for any two Python numbers. Beyond that
  range doubles round (\<open>1e16 + 0.5 == 1e16\<close>), and a target that is not a number
  (\<open>nan\<close>) has no rational counterpart: the exact step below is the source's step only
  on the states that \<open>exact_half_degrees\<close> singles out.
\<close>

definition exact_half_degrees :: "rat \<Rightarrow> bool" where
  "exact_half_degrees q \<longleftrightarrow> of_int \<lfloor>2 * q\<rfloor> = 2 * q \<and> \<bar>q\<bar> \<le> 2 ^ 51"

definition update_current_temp :: "Thermostat \<Rightarrow> Thermostat" where
  "update_current_temp t =
     update_temp_color
       (if temperature t < target_temp t then t\<lparr>temperature := temperature t + 1/2\<rparr>
        else if temperature t > target_temp t then t\<lparr>temperature := temperature t - 1/2\<rparr>
        else t)"

text \<open>
  \<open>fmt\<close> is Python's formatting of a number inside an f-string (an \<open>int\<close> prints
  without, a \<open>float\<close> with a fractional part); it is a parameter of the summaries that
  print a temperature or a light level. The bytes after the temperature are the
  source's literal text before \<open>C\<close>.
\<close>

definition Thermostat_get_details :: "(rat \<Rightarrow> string) \<Rightarrow> Thermostat \<Rightarrow> string" where
  "Thermostat_get_details fmt t =
     (if \<not> status t then details_prefix t @ ''OFF''
      else details_prefix t @ fmt (temperature t)
           @ [char_of (195::nat), char_of (130::nat), char_of (194::nat), char_of (176::nat)]
           @ ''C - Mode: '' @ capitalize (mode t))"

subsection \<open>SecurityCamera\<close>

record SecurityCamera = SmartDevice +
  motion_detected :: bool
  recording :: bool
  battery_level :: int

definition SecurityCamera_init :: "string \<Rightarrow> string \<Rightarrow> SecurityCamera" where
  "SecurityCamera_init did rm =
     \<lparr>device_id = did, status = False, device_type = CAMERA, room = rm, color = ''#cccccc'',
      motion_detected = False, recording = False, battery_level = 100\<rparr>"

text \<open>\<open>coin\<close> is the outcome of \<open>random.choice([True, False])\<close>, used when no state is forced.\<close>

definition detect_motion :: "bool \<Rightarrow> SecurityCamera \<Rightarrow> bool option \<Rightarrow> bool \<times> SecurityCamera" where
  "detect_motion coin c force_state =
     (let m = (case force_state of Some b \<Rightarrow> b | None \<Rightarrow> coin)
      in (m, c\<lparr>motion_detected := m\<rparr>))"

definition start_recording :: "SecurityCamera \<Rightarrow> SecurityCamera" where
  "start_recording c = (if status c then c\<lparr>recording := True\<rparr> else c)"

definition stop_recording :: "SecurityCamera \<Rightarrow> SecurityCamera" where
  "stop_recording c = c\<lparr>recording := False\<rparr>"

definition SecurityCamera_get_details :: "SecurityCamera \<Rightarrow> string" where
  "SecurityCamera_get_details c =
     (if \<not> status c then details_prefix c @ ''OFF''
      else details_prefix c
           @ (if motion_detected c then ''Motion Detected!'' else ''No Motion'') @ '' - ''
           @ (if recording c then ''Recording'' else ''Standby'')
           @ '' - Battery: '' @ str_int (battery_level c) @ ''%'')"

subsection \<open>SmartDoor\<close>

record SmartDoor = SmartDevice +
  locked :: bool
  door_open :: bool

definition SmartDoor_init :: "string \<Rightarrow> string \<Rightarrow> SmartDoor" where
  "SmartDoor_init did rm =
     \<lparr>device_id = did, status = False, device_type = DOOR, room = rm, color = ''#cccccc'',
      locked = True, door_open = False\<rparr>"

definition toggle_lock :: "SmartDoor \<Rightarrow> bool \<times> SmartDoor" where
  "toggle_lock d = (\<not> locked d, d\<lparr>locked := \<not> locked d\<rparr>)"

definition open_door :: "SmartDoor \<Rightarrow> bool \<times> SmartDoor" where
  "open_door d = (if \<not> locked d then (True, d\<lparr>door_open := True\<rparr>) else (False, d))"

definition close_door :: "SmartDoor \<Rightarrow> bool \<times> SmartDoor" where
  "close_door d = (True, d\<lparr>door_open := False\<rparr>)"

definition SmartDoor_get_details :: "SmartDoor \<Rightarrow> string" where
  "SmartDoor_get_details d =
     (if \<not> status d then details_prefix d @ ''OFF''
      else details_prefix d
           @ (if door_open d then ''Open'' else ''Closed'') @ '' - ''
           @ (if locked d then ''Locked'' else ''Unlocked''))"

subsection \<open>SmartWindow\<close>

record SmartWindow = SmartDevice +
  open_percentage :: int
  blinds_percentage :: int
  light_level :: rat

definition SmartWindow_init :: "string \<Rightarrow> string \<Rightarrow> SmartWindow" where
  "SmartWindow_init did rm =
     \<lparr>device_id = did, status = False, device_type = WINDOW, room = rm, color = ''#cccccc'',
      open_percentage = 0, blinds_percentage = 0, light_level = 50\<rparr>"

definition set_open_percentage :: "SmartWindow \<Rightarrow> int \<Rightarrow> SmartWindow" where
  "set_open_percentage w p =
     (let w1 = w\<lparr>open_percentage := max 0 (min 100 p)\<rparr>
      in if open_percentage w1 > 0 then w1\<lparr>status := True\<rparr> else w1\<lparr>status := False\<rparr>)"

definition calculate_light_level :: "SmartWindow \<Rightarrow> SmartWindow" where
  "calculate_light_level w =
     w\<lparr>light_level := of_int (open_percentage w * (100 - blinds_percentage w)) / 100\<rparr>"

definition set_blinds_percentage :: "SmartWindow \<Rightarrow> int \<Rightarrow> SmartWindow" where
  "set_blinds_percentage w p = calculate_light_level (w\<lparr>blinds_percentage := max 0 (min 100 p)\<rparr>)"

definition SmartWindow_get_details :: "(rat \<Rightarrow> string) \<Rightarrow> SmartWindow \<Rightarrow> string" where
  "SmartWindow_get_details fmt w =
     (if \<not> status w then details_prefix w @ ''CLOSED''
      else details_prefix w @ str_int (open_percentage w) @ ''% Open - Blinds: ''
           @ str_int (blinds_percentage w) @ ''% - Light: '' @ fmt (light_level w) @ ''%'')"

subsection \<open>SmartFan\<close>

record SmartFan = SmartDevice +
  speed :: int
  oscillating :: bool
  timer :: int

definition SmartFan_init :: "string \<Rightarrow> string \<Rightarrow> SmartFan" where
  "SmartFan_init did rm =
     \<lparr>device_id = did, status = False, device_type = FAN, room = rm, color = ''#cccccc'',
      speed = 0, oscillating = False, timer = 0\<rparr>"

definition set_speed :: "SmartFan \<Rightarrow> int \<Rightarrow> SmartFan" where
  "set_speed f s =
     (let f1 = f\<lparr>speed := max 0 (min 3 s)\<rparr>
      in if speed f1 > 0 then f1\<lparr>status := True\<rparr> else f1\<lparr>status := False\<rparr>)"

definition toggle_oscillation :: "SmartFan \<Rightarrow> bool \<times> SmartFan" where
  "toggle_oscillation f =
     (let f1 = (if status f then f\<lparr>oscillating := \<not> oscillating f\<rparr> else f)
      in (oscillating f1, f1))"

definition set_timer :: "SmartFan \<Rightarrow> int \<Rightarrow> SmartFan" where
  "set_timer f minutes = f\<lparr>timer := max 0 minutes\<rparr>"

definition speed_labels :: "int \<rightharpoonup> string" where
  "speed_labels = [1 \<mapsto> ''Low'', 2 \<mapsto> ''Medium'', 3 \<mapsto> ''High'']"

text \<open>A speed outside the keys of \<open>speed_labels\<close> raises \<open>KeyError\<close> in the source.\<close>

definition SmartFan_get_details :: "SmartFan \<Rightarrow> error + string" where
  "SmartFan_get_details f =
     (if \<not> status f \<or> speed f = 0 then Inr (details_prefix f @ ''OFF'')
      else case speed_labels (speed f) of
             None \<Rightarrow> Inl KeyError
           | Some lbl \<Rightarrow>
               Inr (details_prefix f @ lbl @ '' - ''
                    @ (if oscillating f then ''Oscillating'' else ''Fixed'') @ '' - ''
                    @ (if timer f > 0 then ''Timer: '' @ str_int (timer f) @ ''min'' else ''No Timer'')))"

subsection \<open>The six device kinds and dynamic dispatch\<close>

datatype device =
    Light SmartLight
  | Thermo Thermostat
  | Camera SecurityCamera
  | Door SmartDoor
  | Window SmartWindow
  | Fan SmartFan

fun get_details :: "(rat \<Rightarrow> string) \<Rightarrow> device \<Rightarrow> error + string" where
  "get_details fmt (Light l) = Inr (SmartLight_get_details l)"
| "get_details fmt (Thermo t) = Inr (Thermostat_get_details fmt t)"
| "get_details fmt (Camera c) = Inr (SecurityCamera_get_details c)"
| "get_details fmt (Door d) = Inr (SmartDoor_get_details d)"
| "get_details fmt (Window w) = Inr (SmartWindow_get_details fmt w)"
| "get_details fmt (Fan f) = SmartFan_get_details f"

fun dev_status :: "device \<Rightarrow> bool" where
  "dev_status (Light l) = status l"
| "dev_status (Thermo t) = status t"
| "dev_status (Camera c) = status c"
| "dev_status (Door d) = status d"
| "dev_status (Window w) = status w"
| "dev_status (Fan f) = status f"

fun dev_prefix :: "device \<Rightarrow> string" where
  "dev_prefix (Light l) = details_prefix l"
| "dev_prefix (Thermo t) = details_prefix t"
| "dev_prefix (Camera c) = details_prefix c"
| "dev_prefix (Door d) = details_prefix d"
| "dev_prefix (Window w) = details_prefix w"
| "dev_prefix (Fan f) = details_prefix f"

section \<open>Automation (src/utils/automation.py)\<close>

text \<open>
  A clock is the sequence of values that successive calls of \<open>time.time()\<close> return;
  reading it yields the first value and leaves the rest.
\<close>

type_synonym timestamp = rat

type_synonym clock = "nat \<Rightarrow> timestamp"

definition time_time :: "clock \<Rightarrow> timestamp \<times> clock" where
  "time_time clk = (clk 0, (\<lambda>n. clk (Suc n)))"

subsection \<open>AutomationRule\<close>

text \<open>
  The condition and the action are closures over the device registry. The registry is
  a Python list of shared mutable objects; an action that mutates devices in place is a
  function from the registry to the registry after the mutation. A condition only reads
  the registry, as every condition of the source does.
\<close>

record AutomationRule =
  name :: string
  condition :: "device list \<Rightarrow> bool"
  action :: "device list \<Rightarrow> device list"
  enabled :: bool
  last_triggered :: "timestamp option"

definition AutomationRule_init ::
  "string \<Rightarrow> (device list \<Rightarrow> bool) \<Rightarrow> (device list \<Rightarrow> device list) \<Rightarrow> AutomationRule" where
  "AutomationRule_init n c a =
     \<lparr>name = n, condition = c, action = a, enabled = True, last_triggered = None\<rparr>"

text \<open>\<open>AutomationRule.apply\<close>: the result, the rule, the registry and the clock afterwards.\<close>

definition AutomationRule_apply ::
  "AutomationRule \<Rightarrow> device list \<Rightarrow> clock \<Rightarrow> bool \<times> AutomationRule \<times> device list \<times> clock" where
  "AutomationRule_apply r ds clk =
     (if \<not> enabled r then (False, r, ds, clk)
      else if condition r ds then
        (let ds' = action r ds;
             (now, clk') = time_time clk
         in (True, r\<lparr>last_triggered := Some now\<rparr>, ds', clk'))
      else (False, r, ds, clk))"

definition AutomationRule_toggle :: "AutomationRule \<Rightarrow> bool \<times> AutomationRule" where
  "AutomationRule_toggle r = (\<not> enabled r, r\<lparr>enabled := \<not> enabled r\<rparr>)"

subsection \<open>AutomationSystem\<close>

text \<open>
  The field \<open>enabled\<close> of the system is \<open>sys_enabled\<close> here (the rule has the name).
  The field \<open>motion_timer\<close>, which the source sets to \<open>None\<close> and never uses, and the
  lookups by id, type and room are left out.
\<close>

record AutomationSystem =
  devices :: "device list"
  rules :: "AutomationRule list"
  sys_enabled :: bool
  last_execution :: timestamp

definition add_device :: "AutomationSystem \<Rightarrow> device \<Rightarrow> AutomationSystem" where
  "add_device s d = s\<lparr>devices := devices s @ [d]\<rparr>"

definition add_rule :: "AutomationSystem \<Rightarrow> AutomationRule \<Rightarrow> AutomationSystem" where
  "add_rule s r = s\<lparr>rules := rules s @ [r]\<rparr>"

definition remove_rule :: "AutomationSystem \<Rightarrow> string \<Rightarrow> AutomationSystem" where
  "remove_rule s n = s\<lparr>rules := filter (\<lambda>r. name r \<noteq> n) (rules s)\<rparr>"

definition AutomationSystem_toggle :: "AutomationSystem \<Rightarrow> bool \<times> AutomationSystem" where
  "AutomationSystem_toggle s = (\<not> sys_enabled s, s\<lparr>sys_enabled := \<not> sys_enabled s\<rparr>)"

text \<open>The loop \<open>for rule in self.rules: if rule.enabled: rule.apply(self.devices)\<close>.\<close>

fun run_rules ::
  "AutomationRule list \<Rightarrow> device list \<Rightarrow> clock \<Rightarrow> AutomationRule list \<times> device list \<times> clock" where
  "run_rules [] ds clk = ([], ds, clk)"
| "run_rules (r # rs) ds clk =
     (if enabled r then
        (case AutomationRule_apply r ds clk of
           (fired, r', ds', clk') \<Rightarrow>
             (case run_rules rs ds' clk' of
                (rs', ds'', clk'') \<Rightarrow> (r' # rs', ds'', clk'')))
      else
        (case run_rules rs ds clk of
           (rs', ds', clk') \<Rightarrow> (r # rs', ds', clk')))"

definition execute_rules :: "AutomationSystem \<Rightarrow> clock \<Rightarrow> AutomationSystem \<times> clock" where
  "execute_rules s clk =
     (if \<not> sys_enabled s then (s, clk)
      else
        (let (now, clk1) = time_time clk;
             s1 = s\<lparr>last_execution := now\<rparr>;
             (rs, ds, clk2) = run_rules (rules s1) (devices s1) clk1
         in (s1\<lparr>rules := rs, devices := ds\<rparr>, clk2)))"

text \<open>
  The specification's reading of a pass: every rule of the list is applied, in list
  order, whatever the earlier rules returned. The outcomes are collected but never
  consulted.
\<close>

fun apply_every_rule ::
  "AutomationRule list \<Rightarrow> device list \<Rightarrow> clock
     \<Rightarrow> bool list \<times> AutomationRule list \<times> device list \<times> clock" where
  "apply_every_rule [] ds clk = ([], [], ds, clk)"
| "apply_every_rule (r # rs) ds clk =
     (case AutomationRule_apply r ds clk of
        (fired, r', ds', clk') \<Rightarrow>
          (case apply_every_rule rs ds' clk' of
             (fs, rs', ds'', clk'') \<Rightarrow> (fired # fs, r' # rs', ds'', clk'')))"

subsection \<open>Predefined rules\<close>

definition motion_lighting_condition :: "device list \<Rightarrow> bool" where
  "motion_lighting_condition ds =
     list_ex (\<lambda>d. case d of Camera c \<Rightarrow> status c \<and> motion_detected c | _ \<Rightarrow> False) ds"

definition motion_lighting_action :: "device list \<Rightarrow> device list" where
  "motion_lighting_action ds =
     map (\<lambda>d. case d of Light l \<Rightarrow> Light (set_brightness (l\<lparr>status := True\<rparr>) 100) | _ \<Rightarrow> d) ds"

definition create_motion_lighting_rule :: AutomationRule where
  "create_motion_lighting_rule =
     AutomationRule_init ''Motion Lighting'' motion_lighting_condition motion_lighting_action"

definition temperature_control_condition :: "rat \<Rightarrow> device list \<Rightarrow> bool" where
  "temperature_control_condition target ds =
     list_ex (\<lambda>d. case d of Thermo t \<Rightarrow> status t \<and> \<bar>temperature t - target\<bar> > 1 | _ \<Rightarrow> False) ds"

definition temperature_control_action :: "rat \<Rightarrow> device list \<Rightarrow> device list" where
  "temperature_control_action target ds =
     map (\<lambda>d. case d of Thermo t \<Rightarrow> if status t then Thermo (set_temperature t target) else d
                      | _ \<Rightarrow> d) ds"

definition create_temperature_control_rule :: "rat \<Rightarrow> AutomationRule" where
  "create_temperature_control_rule target =
     AutomationRule_init ''Temperature Control''
       (temperature_control_condition target) (temperature_control_action target)"

text \<open>\<open>[d for d in devices if isinstance(d, SecurityCamera) and d.status]\<close>\<close>

definition on_cameras :: "device list \<Rightarrow> SecurityCamera list" where
  "on_cameras ds = [c. Camera c \<leftarrow> ds, status c]"

definition security_condition :: "device list \<Rightarrow> bool" where
  "security_condition ds =
     (let cameras = on_cameras ds
      in if cameras = [] then False
         else list_all (\<lambda>camera. \<not> motion_detected camera) cameras)"

definition security_action :: "device list \<Rightarrow> device list" where
  "security_action ds =
     map (\<lambda>d. case d of Door dr \<Rightarrow> if status dr then Door (dr\<lparr>locked := True\<rparr>) else d
                      | _ \<Rightarrow> d) ds"

definition create_security_rule :: AutomationRule where
  "create_security_rule = AutomationRule_init ''Auto Lock'' security_condition security_action"

definition energy_saving_condition :: "device list \<Rightarrow> bool" where
  "energy_saving_condition ds =
     (let cameras = on_cameras ds
      in if cameras = [] then False
         else (let no_motion = list_all (\<lambda>camera. \<not> motion_detected camera) cameras
               in no_motion))"

definition energy_saving_action :: "device list \<Rightarrow> device list" where
  "energy_saving_action ds =
     map (\<lambda>d. case d of
                 Light l \<Rightarrow> if status l then Light (set_brightness l 0) else d
               | Fan f \<Rightarrow> if status f then Fan (set_speed f 0) else d
               | _ \<Rightarrow> d) ds"

definition create_energy_saving_rule :: AutomationRule where
  "create_energy_saving_rule =
     AutomationRule_init ''Energy Saving'' energy_saving_condition energy_saving_action"

section \<open>Concrete inputs and specification-side definitions\<close>

text \<open>The specification's \<open>clamp(b, lo, hi)\<close>.\<close>

definition clamp :: "int \<Rightarrow> int \<Rightarrow> int \<Rightarrow> int" where
  "clamp b lo hi = max lo (min hi b)"

text \<open>
  One instance of the number formatting: the decimal expansion that Python prints for a
  float whose shortest decimal form is finite (\<open>20.5\<close>, \<open>15.0\<close>).
\<close>

fun frac_digits :: "nat \<Rightarrow> rat \<Rightarrow> string" where
  "frac_digits 0 q = []"
| "frac_digits (Suc k) q =
     (if q = 0 then []
      else (let d = \<lfloor>q * 10\<rfloor> in char_of (48 + nat d) # frac_digits k (q * 10 - of_int d)))"

definition fmt_float :: "rat \<Rightarrow> string" where
  "fmt_float q =
     (let a = \<bar>q\<bar>; i = \<lfloor>a\<rfloor>; f = a - of_int i
      in (if q < 0 then ''-'' else []) @ str_nat (nat i) @ ''.''
         @ (if f = 0 then ''0'' else frac_digits 17 f))"

text \<open>A clock whose readings are 1000, 1001, 1002, ...\<close>

definition tick_clock :: clock where
  "tick_clock n = 1000 + of_nat n"

text \<open>Components of the result of \<open>AutomationRule_apply\<close>.\<close>

definition fired :: "bool \<times> AutomationRule \<times> device list \<times> clock \<Rightarrow> bool" where
  "fired res = fst res"

definition rule_after :: "bool \<times> AutomationRule \<times> device list \<times> clock \<Rightarrow> AutomationRule" where
  "rule_after res = fst (snd res)"

definition devices_after :: "bool \<times> AutomationRule \<times> device list \<times> clock \<Rightarrow> device list" where
  "devices_after res = fst (snd (snd res))"

definition clock_after :: "bool \<times> AutomationRule \<times> device list \<times> clock \<Rightarrow> clock" where
  "clock_after res = snd (snd (snd res))"

text \<open>A camera that is on and reports no motion.\<close>

definition quiet_camera :: SecurityCamera where
  "quiet_camera = snd (toggle_status (SecurityCamera_init ''Front Door Camera'' ''Entrance''))"

text \<open>A freshly constructed door after unlocking: its on flag is still false.\<close>

definition unlocked_door_off :: SmartDoor where
  "unlocked_door_off = snd (toggle_lock (SmartDoor_init ''Front Door'' ''Entrance''))"

text \<open>The same door switched on.\<close>

definition unlocked_door_on :: SmartDoor where
  "unlocked_door_on = snd (toggle_status unlocked_door_off)"

text \<open>A light that is on at brightness 80.\<close>

definition bright_light :: SmartLight where
  "bright_light = set_brightness (SmartLight_init ''Living Room Light'' ''Living Room'' 4000) 80"

text \<open>A new window after \<open>set_blinds_percentage(0)\<close> and \<open>set_open_percentage(30)\<close>.\<close>

definition stale_window :: SmartWindow where
  "stale_window =
     set_open_percentage (set_blinds_percentage (SmartWindow_init ''Window'' ''Living Room'') 0) 30"

text \<open>A thermostat at the constructor's 20 degrees with the given target.\<close>

definition thermostat_with_target :: "rat \<Rightarrow> Thermostat" where
  "thermostat_with_target v = set_temperature (Thermostat_init ''Thermostat'' ''Living Room'') v"

text \<open>
  A user-defined rule whose action falsifies its own condition: it fires while some door
  that is on is unlocked, and locks every door that is on.
\<close>

definition unlocked_door_condition :: "device list \<Rightarrow> bool" where
  "unlocked_door_condition ds =
     list_ex (\<lambda>d. case d of Door dr \<Rightarrow> status dr \<and> \<not> locked dr | _ \<Rightarrow> False) ds"

definition lock_unlocked_rule :: AutomationRule where
  "lock_unlocked_rule = AutomationRule_init ''Lock Unlocked'' unlocked_door_condition security_action"

text \<open>A system with the camera, the door and the light, and the rules Auto Lock and Energy Saving.\<close>

definition example_system :: AutomationSystem where
  "example_system =
     add_rule
       (add_rule
          (add_device
             (add_device
                (add_device
                   \<lparr>devices = [], rules = [], sys_enabled = True, last_execution = 0\<rparr>
                   (Camera quiet_camera))
                (Door unlocked_door_on))
             (Light bright_light))
          create_security_rule)
       create_energy_saving_rule"

section \<open>Device properties\<close>

subsection \<open>SmartDoor\<close>

text \<open>
  C3. \<open>open_door\<close> returns true and sets the open flag exactly when the door is unlocked
  at the call; on a locked door it returns false and the whole door state is unchanged.
  The refusal is the boolean result: the function has no error result at all.
\<close>

theorem open_door_iff_unlocked:
  "(\<not> locked d \<longrightarrow> open_door d = (True, d\<lparr>door_open := True\<rparr>))
   \<and> (locked d \<longrightarrow> open_door d = (False, d))
   \<and> (fst (open_door d) \<longleftrightarrow> \<not> locked d)
   \<and> (fst (open_door d) \<longrightarrow> door_open (snd (open_door d)))"
  by (simp add: open_door_def)

text \<open>
  The constructor's door is locked: opening fails and the door stays closed. After
  unlocking, opening succeeds and the door is open.
\<close>

theorem open_door_iff_unlocked_witness:
  "open_door (SmartDoor_init ''Front Door'' ''Entrance'')
     = (False, SmartDoor_init ''Front Door'' ''Entrance'')
   \<and> \<not> door_open (snd (open_door (SmartDoor_init ''Front Door'' ''Entrance'')))
   \<and> fst (open_door (snd (toggle_lock (SmartDoor_init ''Front Door'' ''Entrance''))))
   \<and> door_open (snd (open_door (snd (toggle_lock (SmartDoor_init ''Front Door'' ''Entrance'')))))"
  using open_door_iff_unlocked [of "SmartDoor_init ''Front Door'' ''Entrance''"]
        open_door_iff_unlocked [of "snd (toggle_lock (SmartDoor_init ''Front Door'' ''Entrance''))"]
  by (simp add: SmartDoor_init_def toggle_lock_def)

subsection \<open>SmartLight\<close>

text \<open>
  C4. \<open>set_brightness\<close> stores its argument as it is. On a new light,
  \<open>set_brightness(150)\<close> stores 150 where the clamp to [0, 100] is 100; on a light that
  is on, \<open>set_brightness(-5)\<close> stores -5 and leaves the light on, where the clamp is 0
  and a brightness of 0 means off.
\<close>

theorem set_brightness_stores_unclamped:
  "brightness (set_brightness (SmartLight_init ''Lamp'' ''Living Room'' 4000) 150) = 150
   \<and> clamp 150 0 100 = 100
   \<and> brightness (set_brightness bright_light (- 5)) = - 5
   \<and> status (set_brightness bright_light (- 5))
   \<and> clamp (- 5) 0 100 = 0"
  by (simp add: set_brightness_def SmartLight_init_def update_light_color_def clamp_def
        bright_light_def)

subsection \<open>Thermostat\<close>

text \<open>
  C10. \<open>set_temperature\<close> stores the target and switches the thermostat on, whatever
  its on flag was, and leaves the current temperature, the mode, the humidity and the
  colour as they were.
\<close>

theorem set_temperature_frame:
  "target_temp (set_temperature t v) = v
   \<and> status (set_temperature t v)
   \<and> temperature (set_temperature t v) = temperature t
   \<and> mode (set_temperature t v) = mode t
   \<and> humidity (set_temperature t v) = humidity t
   \<and> color (set_temperature t v) = color t"
  by (simp add: set_temperature_def)

lemma update_temp_color_fields [simp]:
  "temperature (update_temp_color t) = temperature t"
  "target_temp (update_temp_color t) = target_temp t"
  by (simp_all add: update_temp_color_def)

lemma update_current_temp_target [simp]:
  "target_temp (update_current_temp t) = target_temp t"
  by (simp add: update_current_temp_def)

lemma update_current_temp_temperature:
  "temperature (update_current_temp t) =
     (if temperature t < target_temp t then temperature t + 1/2
      else if temperature t > target_temp t then temperature t - 1/2
      else temperature t)"
  by (simp add: update_current_temp_def)

text \<open>Once the temperature equals the target, no number of further steps changes it.\<close>

lemma settled_stays:
  "temperature t = target_temp t \<Longrightarrow>
     temperature ((update_current_temp ^^ n) t) = target_temp t
     \<and> target_temp ((update_current_temp ^^ n) t) = target_temp t"
  by (induction n) (simp_all add: update_current_temp_temperature)

lemma thermostat_with_target_fields [simp]:
  "temperature (thermostat_with_target v) = 20"
  "target_temp (thermostat_with_target v) = v"
  by (simp_all add: thermostat_with_target_def set_temperature_def Thermostat_init_def)

lemma four_steps_to_22:
  "temperature ((update_current_temp ^^ 4) (thermostat_with_target 22)) = 22"
  "target_temp ((update_current_temp ^^ 4) (thermostat_with_target 22)) = 22"
  by (simp_all add: eval_nat_numeral update_current_temp_temperature)

lemma after_four_steps:
  assumes "4 \<le> n"
  shows "temperature ((update_current_temp ^^ n) (thermostat_with_target 22)) = 22"
proof -
  obtain k where n: "n = k + 4"
    using assms by (metis le_add_diff_inverse2)
  let ?t4 = "(update_current_temp ^^ 4) (thermostat_with_target 22)"
  have "temperature ?t4 = target_temp ?t4"
    by (simp only: four_steps_to_22)
  then have "temperature ((update_current_temp ^^ k) ?t4) = target_temp ?t4"
    using settled_stays by blast
  then show ?thesis
    by (simp only: n funpow_add o_apply four_steps_to_22)
qed

lemma half_integer_obtain:
  assumes "exact_half_degrees q"
  obtains k :: int where "q = of_int k / 2" and "\<bar>k\<bar> \<le> 2 ^ 52"
proof -
  let ?k = "\<lfloor>2 * q\<rfloor>"
  from assms have e: "of_int ?k = 2 * q" and b: "\<bar>q\<bar> \<le> 2 ^ 51"
    unfolding exact_half_degrees_def by blast+
  have q: "q = of_int ?k / 2"
    unfolding e by simp
  have "\<bar>(of_int ?k :: rat)\<bar> \<le> 2 ^ 52"
    unfolding e using b by simp
  then have "(of_int \<bar>?k\<bar> :: rat) \<le> of_int (2 ^ 52)"
    by simp
  then have "\<bar>?k\<bar> \<le> 2 ^ 52"
    by (simp only: of_int_le_iff)
  with q show ?thesis
    using that by blast
qed

lemma exact_half_degrees_of_int:
  "\<bar>k\<bar> \<le> 2 ^ 52 \<Longrightarrow> exact_half_degrees (of_int k / 2)"
proof -
  assume a: "\<bar>k\<bar> \<le> 2 ^ 52"
  then have "(of_int \<bar>k\<bar> :: rat) \<le> of_int (2 ^ 52)"
    by (simp only: of_int_le_iff)
  then have "\<bar>(of_int k :: rat)\<bar> \<le> 2 ^ 52"
    by simp
  then show ?thesis
    by (simp add: exact_half_degrees_def)
qed

text \<open>
  With a target of magnitude at most \<open>2 ^ 51\<close> the step stays among the half-integers
  of bounded size: a temperature below such a target is at most \<open>2 ^ 51 - 1/2\<close>.
\<close>

lemma exact_half_degrees_step:
  assumes ex: "exact_half_degrees (temperature t)" and tg: "\<bar>target_temp t\<bar> \<le> 2 ^ 51"
  shows "exact_half_degrees (temperature (update_current_temp t))"
proof -
  obtain k :: int where q: "temperature t = of_int k / 2" and kb: "\<bar>k\<bar> \<le> 2 ^ 52"
    using ex by (rule half_integer_obtain)
  consider (up) "temperature t < target_temp t" | (down) "target_temp t < temperature t"
    | (eq) "temperature t = target_temp t"
    by linarith
  then show ?thesis
  proof cases
    case up
    then have "(of_int k :: rat) < 2 ^ 52"
      using tg q by simp
    then have "(of_int k :: rat) < of_int (2 ^ 52)"
      by simp
    then have "k < 2 ^ 52"
      by (simp only: of_int_less_iff)
    with kb have "\<bar>k + 1\<bar> \<le> 2 ^ 52"
      by simp
    then have "exact_half_degrees (of_int (k + 1) / 2)"
      by (rule exact_half_degrees_of_int)
    moreover have "temperature (update_current_temp t) = of_int (k + 1) / 2"
      using up q by (simp add: update_current_temp_temperature add_divide_distrib)
    ultimately show ?thesis by (simp only:)
  next
    case down
    then have "- (2 ^ 52) < (of_int k :: rat)"
      using tg q by simp
    then have "(of_int (- (2 ^ 52)) :: rat) < of_int k"
      by simp
    then have "- (2 ^ 52) < k"
      by (simp only: of_int_less_iff)
    with kb have "\<bar>k - 1\<bar> \<le> 2 ^ 52"
      by simp
    then have "exact_half_degrees (of_int (k - 1) / 2)"
      by (rule exact_half_degrees_of_int)
    moreover have "temperature (update_current_temp t) = of_int (k - 1) / 2"
      using down q by (simp add: update_current_temp_temperature diff_divide_distrib)
    ultimately show ?thesis by (simp only:)
  next
    case eq
    then show ?thesis
      using ex by (simp add: update_current_temp_temperature)
  qed
qed

text \<open>Every state on the way from 20 toward the target 22 is a half-integer of bounded size.\<close>

lemma toward_22_exact:
  "exact_half_degrees (temperature ((update_current_temp ^^ n) (thermostat_with_target 22)))
   \<and> target_temp ((update_current_temp ^^ n) (thermostat_with_target 22)) = 22"
proof (induction n)
  case 0
  show ?case by (simp add: exact_half_degrees_def)
next
  case (Suc n)
  then show ?case
    by (simp add: exact_half_degrees_step)
qed

text \<open>
  C5, as stated, fails: the step is always a full 0.5 and is not cut at the target. At
  temperature 20 with target 20.25 (both doubles, and 20 a half-integer of bounded
  size) the temperature is below the target before the call and above it (20.5) after.
\<close>

theorem update_current_temp_overshoots:
  "temperature (thermostat_with_target (81/4)) < target_temp (thermostat_with_target (81/4))
   \<and> target_temp (thermostat_with_target (81/4))
       < temperature (update_current_temp (thermostat_with_target (81/4)))"
  by (simp add: update_current_temp_temperature)

text \<open>
  C5, amended. For every thermostat state whose temperature is a multiple of 0.5 of
  magnitude at most \<open>2 ^ 51\<close> and whose target is a finite number, one call of
  \<open>update_current_temp\<close> leaves the target unchanged and moves the temperature by
  exactly 0.5 toward the target when the two differ, and not at all when they are equal;
  the result is not past the target whenever the target is at least 0.5 away; and when
  the target has magnitude at most \<open>2 ^ 51\<close> the new temperature is again a multiple
  of 0.5 of magnitude at most \<open>2 ^ 51\<close>. Starting at 20 with target 22, every state
  reached is such a state, the first call yields 20.5, four calls yield exactly 22, and
  every longer run of calls still yields 22.
\<close>

theorem update_current_temp_step:
  "(exact_half_degrees (temperature t) \<longrightarrow>
      target_temp (update_current_temp t) = target_temp t
      \<and> \<bar>temperature (update_current_temp t) - temperature t\<bar> \<le> 1/2
      \<and> (temperature t < target_temp t \<longrightarrow>
           temperature (update_current_temp t) = temperature t + 1/2)
      \<and> (target_temp t < temperature t \<longrightarrow>
           temperature (update_current_temp t) = temperature t - 1/2)
      \<and> (temperature t = target_temp t \<longrightarrow>
           temperature (update_current_temp t) = temperature t)
      \<and> (temperature t + 1/2 \<le> target_temp t \<longrightarrow>
           temperature (update_current_temp t) \<le> target_temp t)
      \<and> (target_temp t + 1/2 \<le> temperature t \<longrightarrow>
           target_temp t \<le> temperature (update_current_temp t))
      \<and> (\<bar>target_temp t\<bar> \<le> 2 ^ 51 \<longrightarrow>
           exact_half_degrees (temperature (update_current_temp t))))
   \<and> exact_half_degrees (temperature ((update_current_temp ^^ n) (thermostat_with_target 22)))
   \<and> temperature (update_current_temp (thermostat_with_target 22)) = 41/2
   \<and> temperature ((update_current_temp ^^ 4) (thermostat_with_target 22)) = 22
   \<and> (4 \<le> n \<longrightarrow> temperature ((update_current_temp ^^ n) (thermostat_with_target 22)) = 22)"
proof -
  have step: "\<bar>temperature (update_current_temp t) - temperature t\<bar> \<le> 1/2"
    by (simp add: update_current_temp_temperature)
  have closed: "exact_half_degrees (temperature t) \<longrightarrow> \<bar>target_temp t\<bar> \<le> 2 ^ 51 \<longrightarrow>
                  exact_half_degrees (temperature (update_current_temp t))"
    using exact_half_degrees_step by blast
  have first: "temperature (update_current_temp (thermostat_with_target 22)) = 41/2"
    by (simp add: update_current_temp_temperature)
  have general:
    "exact_half_degrees (temperature t) \<longrightarrow>
      target_temp (update_current_temp t) = target_temp t
      \<and> \<bar>temperature (update_current_temp t) - temperature t\<bar> \<le> 1/2
      \<and> (temperature t < target_temp t \<longrightarrow>
           temperature (update_current_temp t) = temperature t + 1/2)
      \<and> (target_temp t < temperature t \<longrightarrow>
           temperature (update_current_temp t) = temperature t - 1/2)
      \<and> (temperature t = target_temp t \<longrightarrow>
           temperature (update_current_temp t) = temperature t)
      \<and> (temperature t + 1/2 \<le> target_temp t \<longrightarrow>
           temperature (update_current_temp t) \<le> target_temp t)
      \<and> (target_temp t + 1/2 \<le> temperature t \<longrightarrow>
           target_temp t \<le> temperature (update_current_temp t))
      \<and> (\<bar>target_temp t\<bar> \<le> 2 ^ 51 \<longrightarrow>
           exact_half_degrees (temperature (update_current_temp t)))"
    using step closed by (simp add: update_current_temp_temperature)
  show ?thesis
    using general toward_22_exact [of n] first four_steps_to_22(1) after_four_steps [of n]
    by blast
qed

text \<open>
  Targets 22, 18 and 20 from the constructor's 20 degrees: a step up that stays below the
  target, a step down that stays above it, no step at the target, each landing on a
  half-integer of bounded size again, and six calls toward 22.
\<close>

theorem update_current_temp_step_witness:
  "exact_half_degrees (temperature (thermostat_with_target 22))
   \<and> temperature (update_current_temp (thermostat_with_target 22)) = 20 + 1/2
   \<and> temperature (update_current_temp (thermostat_with_target 22)) \<le> 22
   \<and> exact_half_degrees (temperature (update_current_temp (thermostat_with_target 22)))
   \<and> temperature (update_current_temp (thermostat_with_target 18)) = 20 - 1/2
   \<and> 18 \<le> temperature (update_current_temp (thermostat_with_target 18))
   \<and> temperature (update_current_temp (thermostat_with_target 20)) = 20
   \<and> temperature ((update_current_temp ^^ 6) (thermostat_with_target 22)) = 22"
proof -
  have ex: "exact_half_degrees 20"
    by (simp add: exact_half_degrees_def)
  show ?thesis
    using update_current_temp_step [of "thermostat_with_target 22" 6]
          update_current_temp_step [of "thermostat_with_target 18" 6]
          update_current_temp_step [of "thermostat_with_target 20" 6]
          ex
    by (simp add: update_current_temp_temperature exact_half_degrees_def)
qed

subsection \<open>SmartWindow\<close>

text \<open>\<open>set_blinds_percentage\<close> recomputes the light level from the stored percentages.\<close>

lemma set_blinds_percentage_light_level:
  "light_level (set_blinds_percentage w p)
     = of_int (open_percentage (set_blinds_percentage w p)
               * (100 - blinds_percentage (set_blinds_percentage w p))) / 100"
  by (simp add: set_blinds_percentage_def calculate_light_level_def)

text \<open>
  C8. \<open>set_open_percentage\<close> does not recompute the light level. On a new window,
  \<open>set_blinds_percentage(0)\<close> followed by \<open>set_open_percentage(30)\<close> leaves the stored
  light level at 0, although the stored percentages are 30 and 0 and the formula
  gives 30.
\<close>

theorem set_open_percentage_keeps_stale_light_level:
  "light_level stale_window = 0
   \<and> open_percentage stale_window = 30
   \<and> blinds_percentage stale_window = 0
   \<and> (of_int (open_percentage stale_window * (100 - blinds_percentage stale_window)) / 100 :: rat)
       = 30"
  by (simp add: stale_window_def set_open_percentage_def set_blinds_percentage_def
        calculate_light_level_def SmartWindow_init_def)

subsection \<open>Summaries\<close>

text \<open>
  C9, as stated, fails for the window: a window whose on flag is false is summarised as
  \<open>CLOSED\<close>, not \<open>OFF\<close>.
\<close>

theorem window_off_summary_is_closed:
  "\<not> dev_status (Window (SmartWindow_init ''Window'' ''Living Room''))
   \<and> get_details fmt_float (Window (SmartWindow_init ''Window'' ''Living Room''))
       = Inr ''Window (Living Room): CLOSED''
   \<and> get_details fmt_float (Window (SmartWindow_init ''Window'' ''Living Room''))
       \<noteq> Inr ''Window (Living Room): OFF''"
  by (simp add: SmartWindow_get_details_def SmartWindow_init_def details_prefix_def)

text \<open>
  C9, amended. For every device whose on flag is false, whatever its other attributes,
  \<open>get_details\<close> returns the fixed summary of its kind: the identity prefix followed by
  \<open>OFF\<close> for a light, a thermostat, a camera, a door and a fan, and by \<open>CLOSED\<close> for a
  window.
\<close>

theorem off_summary_by_kind:
  "\<not> dev_status d \<Longrightarrow>
     get_details fmt d
       = Inr (dev_prefix d @ (case d of Window w \<Rightarrow> ''CLOSED'' | _ \<Rightarrow> ''OFF''))"
  by (cases d)
     (simp_all add: SmartLight_get_details_def Thermostat_get_details_def
        SecurityCamera_get_details_def SmartDoor_get_details_def SmartWindow_get_details_def
        SmartFan_get_details_def)

text \<open>A light switched off at brightness 80, and a new window.\<close>

theorem off_summary_by_kind_witness:
  "get_details fmt_float (Light (snd (toggle_status bright_light)))
     = Inr ''Living Room Light (Living Room): OFF''
   \<and> get_details fmt_float (Window (SmartWindow_init ''Window'' ''Living Room''))
     = Inr ''Window (Living Room): CLOSED''"
  using off_summary_by_kind [of "Light (snd (toggle_status bright_light))" fmt_float]
        off_summary_by_kind [of "Window (SmartWindow_init ''Window'' ''Living Room'')" fmt_float]
  by (simp add: bright_light_def toggle_status_def set_brightness_def SmartLight_init_def
        update_light_color_def SmartWindow_init_def details_prefix_def)

section \<open>Automation properties\<close>

subsection \<open>The conditions of Auto Lock and Energy Saving\<close>

lemma set_on_cameras: "set (on_cameras ds) = {c. Camera c \<in> set ds \<and> status c}"
proof (induction ds)
  case Nil
  show ?case by (simp add: on_cameras_def)
next
  case (Cons d ds)
  then show ?case
    by (cases d) (auto simp: on_cameras_def)
qed

lemma security_condition_iff:
  "security_condition ds \<longleftrightarrow>
     (\<exists>c. Camera c \<in> set ds \<and> status c)
     \<and> (\<forall>c. Camera c \<in> set ds \<and> status c \<longrightarrow> \<not> motion_detected c)"
proof -
  have ne: "on_cameras ds \<noteq> [] \<longleftrightarrow> (\<exists>c. Camera c \<in> set ds \<and> status c)"
    using set_on_cameras [of ds] by (cases "on_cameras ds") auto
  have al: "list_all (\<lambda>camera. \<not> motion_detected camera) (on_cameras ds)
              \<longleftrightarrow> (\<forall>c. Camera c \<in> set ds \<and> status c \<longrightarrow> \<not> motion_detected c)"
    by (simp add: list_all_iff set_on_cameras)
  show ?thesis
    unfolding security_condition_def Let_def using ne al by auto
qed

lemma energy_saving_condition_eq: "energy_saving_condition ds = security_condition ds"
  by (simp add: energy_saving_condition_def security_condition_def Let_def)

lemma rule_fields [simp]:
  "condition (AutomationRule_init n c a) = c"
  "action (AutomationRule_init n c a) = a"
  "enabled (AutomationRule_init n c a)"
  "last_triggered (AutomationRule_init n c a) = None"
  "name (AutomationRule_init n c a) = n"
  by (simp_all add: AutomationRule_init_def)

lemma example_device_fields [simp]:
  "status quiet_camera" "\<not> motion_detected quiet_camera"
  "\<not> status unlocked_door_off" "\<not> locked unlocked_door_off"
  "status unlocked_door_on" "\<not> locked unlocked_door_on"
  "status bright_light"
  by (simp_all add: quiet_camera_def unlocked_door_off_def unlocked_door_on_def
        toggle_status_def toggle_lock_def SecurityCamera_init_def SmartDoor_init_def
        bright_light_def set_brightness_def)

text \<open>
  C6. On every registry the condition of the Auto Lock rule and the condition of the
  Energy Saving rule have the same value, and they hold exactly when the registry has a
  camera that is on and no camera that is on reports motion.
\<close>

theorem auto_lock_energy_saving_same_condition:
  "condition create_security_rule ds = condition create_energy_saving_rule ds
   \<and> (condition create_security_rule ds \<longleftrightarrow>
        (\<exists>c. Camera c \<in> set ds \<and> status c)
        \<and> (\<forall>c. Camera c \<in> set ds \<and> status c \<longrightarrow> \<not> motion_detected c))"
  by (simp only: create_security_rule_def create_energy_saving_rule_def rule_fields
        energy_saving_condition_eq security_condition_iff simp_thms)

text \<open>With one quiet camera that is on, both conditions hold.\<close>

theorem auto_lock_energy_saving_same_condition_witness:
  "condition create_security_rule [Camera quiet_camera, Door unlocked_door_on]
   \<and> condition create_energy_saving_rule [Camera quiet_camera, Door unlocked_door_on]"
  using auto_lock_energy_saving_same_condition [of "[Camera quiet_camera, Door unlocked_door_on]"]
  by auto

subsection \<open>AutomationRule.apply\<close>

lemma apply_fires:
  "enabled r \<Longrightarrow> condition r ds \<Longrightarrow>
     AutomationRule_apply r ds clk
       = (True, r\<lparr>last_triggered := Some (clk 0)\<rparr>, action r ds, (\<lambda>n. clk (Suc n)))"
  by (simp add: AutomationRule_apply_def time_time_def)

lemma apply_skips:
  "\<not> enabled r \<or> \<not> condition r ds \<Longrightarrow> AutomationRule_apply r ds clk = (False, r, ds, clk)"
  by (auto simp: AutomationRule_apply_def)

lemma tick_clock_readings [simp]:
  "fst (time_time tick_clock) = 1000"
  "snd (time_time tick_clock) 0 = 1001"
  "snd (time_time (snd (time_time tick_clock))) 0 = 1002"
  by (simp_all add: time_time_def tick_clock_def)

text \<open>
  C2. When the rule is disabled or its condition is false on the registry, \<open>apply\<close>
  returns false and the rule (with its \<open>last_triggered\<close>), the registry and the clock are
  as before. When the rule is enabled and its condition is true, \<open>apply\<close> returns true,
  the registry is the result of the action and \<open>last_triggered\<close> is the time read.
  Consequently, when an \<open>apply\<close> has fired and the condition is false on the registry it
  left, a second \<open>apply\<close> there returns false and changes nothing.
\<close>

theorem apply_contract:
  "(\<not> enabled r \<or> \<not> condition r ds \<longrightarrow>
      AutomationRule_apply r ds clk = (False, r, ds, clk))
   \<and> (enabled r \<and> condition r ds \<longrightarrow>
        AutomationRule_apply r ds clk
          = (True, r\<lparr>last_triggered := Some (fst (time_time clk))\<rparr>, action r ds,
             snd (time_time clk)))
   \<and> (fired (AutomationRule_apply r ds clk)
        \<and> \<not> condition r (devices_after (AutomationRule_apply r ds clk)) \<longrightarrow>
        AutomationRule_apply (rule_after (AutomationRule_apply r ds clk))
            (devices_after (AutomationRule_apply r ds clk))
            (clock_after (AutomationRule_apply r ds clk))
          = (False, rule_after (AutomationRule_apply r ds clk),
             devices_after (AutomationRule_apply r ds clk),
             clock_after (AutomationRule_apply r ds clk)))"
proof (intro conjI impI)
  assume "\<not> enabled r \<or> \<not> condition r ds"
  then show "AutomationRule_apply r ds clk = (False, r, ds, clk)"
    by (rule apply_skips)
next
  assume "enabled r \<and> condition r ds"
  then show "AutomationRule_apply r ds clk
          = (True, r\<lparr>last_triggered := Some (fst (time_time clk))\<rparr>, action r ds,
             snd (time_time clk))"
    by (simp add: apply_fires time_time_def)
next
  let ?res = "AutomationRule_apply r ds clk"
  assume a: "fired ?res \<and> \<not> condition r (devices_after ?res)"
  then have en: "enabled r \<and> condition r ds"
    by (auto simp: fired_def AutomationRule_apply_def split: if_splits)
  then have res: "?res = (True, r\<lparr>last_triggered := Some (clk 0)\<rparr>, action r ds, (\<lambda>n. clk (Suc n)))"
    by (simp add: apply_fires)
  have "\<not> condition (rule_after ?res) (devices_after ?res)"
    using a by (simp add: res rule_after_def devices_after_def)
  then show "AutomationRule_apply (rule_after ?res) (devices_after ?res) (clock_after ?res)
          = (False, rule_after ?res, devices_after ?res, clock_after ?res)"
    by (simp add: apply_skips)
qed

text \<open>
  The rule that locks unlocked doors: it fires on an unlocked door that is on, a second
  \<open>apply\<close> on the registry it left does nothing, it does nothing on a door that is off,
  and it does nothing once disabled.
\<close>

theorem apply_contract_witness:
  "AutomationRule_apply lock_unlocked_rule [Door unlocked_door_on] tick_clock
     = (True, lock_unlocked_rule\<lparr>last_triggered := Some 1000\<rparr>,
        [Door (unlocked_door_on\<lparr>locked := True\<rparr>)], snd (time_time tick_clock))
   \<and> AutomationRule_apply (lock_unlocked_rule\<lparr>last_triggered := Some 1000\<rparr>)
        [Door (unlocked_door_on\<lparr>locked := True\<rparr>)] (snd (time_time tick_clock))
     = (False, lock_unlocked_rule\<lparr>last_triggered := Some 1000\<rparr>,
        [Door (unlocked_door_on\<lparr>locked := True\<rparr>)], snd (time_time tick_clock))
   \<and> AutomationRule_apply lock_unlocked_rule [Door unlocked_door_off] tick_clock
     = (False, lock_unlocked_rule, [Door unlocked_door_off], tick_clock)
   \<and> AutomationRule_apply (snd (AutomationRule_toggle lock_unlocked_rule))
        [Door unlocked_door_on] tick_clock
     = (False, snd (AutomationRule_toggle lock_unlocked_rule), [Door unlocked_door_on], tick_clock)"
proof -
  have c1: "condition lock_unlocked_rule [Door unlocked_door_on]"
    and c2: "\<not> condition lock_unlocked_rule [Door unlocked_door_off]"
    and c3: "\<not> condition lock_unlocked_rule [Door (unlocked_door_on\<lparr>locked := True\<rparr>)]"
    and a1: "action lock_unlocked_rule [Door unlocked_door_on]
               = [Door (unlocked_door_on\<lparr>locked := True\<rparr>)]"
    and e1: "enabled lock_unlocked_rule"
    and e2: "\<not> enabled (snd (AutomationRule_toggle lock_unlocked_rule))"
    by (simp_all add: lock_unlocked_rule_def unlocked_door_condition_def security_action_def
          AutomationRule_toggle_def)
  have first: "AutomationRule_apply lock_unlocked_rule [Door unlocked_door_on] tick_clock
     = (True, lock_unlocked_rule\<lparr>last_triggered := Some 1000\<rparr>,
        [Door (unlocked_door_on\<lparr>locked := True\<rparr>)], snd (time_time tick_clock))"
    using apply_contract [of lock_unlocked_rule "[Door unlocked_door_on]" tick_clock] c1 e1 a1
    by simp
  show ?thesis
    using apply_contract [of lock_unlocked_rule "[Door unlocked_door_on]" tick_clock]
          apply_contract [of lock_unlocked_rule "[Door unlocked_door_off]" tick_clock]
          apply_contract [of "snd (AutomationRule_toggle lock_unlocked_rule)"
                             "[Door unlocked_door_on]" tick_clock]
          c1 c2 c3 a1 e1 e2
    by (simp add: first fired_def rule_after_def devices_after_def clock_after_def)
qed

subsection \<open>The Auto Lock rule\<close>

lemma security_action_door:
  "i < length ds \<Longrightarrow> ds ! i = Door d \<Longrightarrow> status d \<Longrightarrow>
     security_action ds ! i = Door (d\<lparr>locked := True\<rparr>)"
  by (simp add: security_action_def)

text \<open>
  C7, as stated, fails: the action locks only the doors whose on flag is true, and the
  constructor leaves a door's on flag false. With one quiet camera that is on and one
  unlocked door that is off, the rule fires and the registry, the unlocked door
  included, is as before.
\<close>

theorem auto_lock_skips_door_that_is_off:
  "fired (AutomationRule_apply create_security_rule
            [Camera quiet_camera, Door unlocked_door_off] tick_clock)
   \<and> devices_after (AutomationRule_apply create_security_rule
            [Camera quiet_camera, Door unlocked_door_off] tick_clock)
       = [Camera quiet_camera, Door unlocked_door_off]
   \<and> \<not> locked unlocked_door_off"
  by (simp add: fired_def devices_after_def AutomationRule_apply_def create_security_rule_def
        security_condition_def on_cameras_def security_action_def time_time_def)

text \<open>
  C7, amended. For every registry that contains a camera that is on and reports no
  motion, in which no camera that is on reports motion, and that holds at some position
  a door whose on flag is true: applying the Auto Lock rule fires, and the device at
  that position afterwards is the same door with \<open>locked\<close> true.
\<close>

theorem auto_lock_locks_door_that_is_on:
  assumes "Camera c \<in> set ds" and "status c" and "\<not> motion_detected c"
    and "\<forall>c'. Camera c' \<in> set ds \<and> status c' \<longrightarrow> \<not> motion_detected c'"
    and "i < length ds" and "ds ! i = Door d" and "status d"
  shows "fired (AutomationRule_apply create_security_rule ds clk)
         \<and> devices_after (AutomationRule_apply create_security_rule ds clk) ! i
             = Door (d\<lparr>locked := True\<rparr>)"
proof -
  have "security_condition ds"
    using assms(1,2,4) security_condition_iff by blast
  then have "AutomationRule_apply create_security_rule ds clk
               = (True, create_security_rule\<lparr>last_triggered := Some (clk 0)\<rparr>,
                  security_action ds, (\<lambda>n. clk (Suc n)))"
    by (simp add: apply_fires create_security_rule_def)
  then show ?thesis
    using assms(5-7) by (simp add: fired_def devices_after_def security_action_door)
qed

text \<open>One quiet camera that is on and one unlocked door that is on.\<close>

theorem auto_lock_locks_door_that_is_on_witness:
  "fired (AutomationRule_apply create_security_rule
            [Camera quiet_camera, Door unlocked_door_on] tick_clock)
   \<and> devices_after (AutomationRule_apply create_security_rule
            [Camera quiet_camera, Door unlocked_door_on] tick_clock) ! 1
       = Door (unlocked_door_on\<lparr>locked := True\<rparr>)"
  using auto_lock_locks_door_that_is_on
          [of quiet_camera "[Camera quiet_camera, Door unlocked_door_on]" 1 unlocked_door_on tick_clock]
  by simp

subsection \<open>AutomationSystem.execute_rules\<close>

text \<open>
  The loop of the source skips a disabled rule; \<open>apply\<close> on a disabled rule changes
  nothing, so the loop is the pass that applies every rule.
\<close>

lemma run_rules_eq: "run_rules rs ds clk = snd (apply_every_rule rs ds clk)"
proof (induction rs arbitrary: ds clk)
  case Nil
  show ?case by simp
next
  case (Cons r rs)
  show ?case
  proof (cases "enabled r")
    case True
    then show ?thesis
      by (simp add: Cons.IH split: prod.splits)
  next
    case False
    then have "AutomationRule_apply r ds clk = (False, r, ds, clk)"
      by (simp add: apply_skips)
    with False show ?thesis
      by (simp add: Cons.IH split: prod.splits)
  qed
qed

lemma example_system_fields:
  "devices example_system = [Camera quiet_camera, Door unlocked_door_on, Light bright_light]"
  "rules example_system = [create_security_rule, create_energy_saving_rule]"
  "sys_enabled example_system"
  "\<not> sys_enabled (snd (AutomationSystem_toggle example_system))"
  by (simp_all add: example_system_def add_rule_def add_device_def AutomationSystem_toggle_def)

text \<open>
  C1. When the system is disabled, \<open>execute_rules\<close> returns the system as it was: no
  device, no rule and not \<open>last_execution\<close> has changed, and the clock has not been read.
  When the system is enabled, \<open>last_execution\<close> becomes the time read, and the rules and
  the registry afterwards are those left by applying every rule of the list in list
  order, each on the registry left by the one before it, whatever the earlier rules
  returned.
\<close>

theorem execute_rules_contract:
  "(\<not> sys_enabled s \<longrightarrow> execute_rules s clk = (s, clk))
   \<and> (sys_enabled s \<longrightarrow>
        (case apply_every_rule (rules s) (devices s) (snd (time_time clk)) of
           (outcomes, rs, ds, clk') \<Rightarrow>
             execute_rules s clk
               = (s\<lparr>last_execution := fst (time_time clk), rules := rs, devices := ds\<rparr>, clk')))"
  by (simp add: execute_rules_def run_rules_eq time_time_def split: prod.splits)

text \<open>
  The example system: the pass reads the time 1000, Auto Lock fires at 1001 and locks
  the door, Energy Saving then fires at 1002 and switches the light off. After
  \<open>toggle\<close> the same call changes nothing.
\<close>

theorem execute_rules_contract_witness:
  "last_execution (fst (execute_rules example_system tick_clock)) = 1000
   \<and> devices (fst (execute_rules example_system tick_clock))
       = [Camera quiet_camera, Door (unlocked_door_on\<lparr>locked := True\<rparr>),
          Light (set_brightness bright_light 0)]
   \<and> map last_triggered (rules (fst (execute_rules example_system tick_clock)))
       = [Some 1001, Some 1002]
   \<and> execute_rules (snd (AutomationSystem_toggle example_system)) tick_clock
       = (snd (AutomationSystem_toggle example_system), tick_clock)"
proof -
  let ?ds = "[Camera quiet_camera, Door unlocked_door_on, Light bright_light]"
  let ?ds1 = "[Camera quiet_camera, Door (unlocked_door_on\<lparr>locked := True\<rparr>), Light bright_light]"
  have c1: "security_condition ?ds" and c2: "energy_saving_condition ?ds1"
    by (simp_all add: energy_saving_condition_eq security_condition_iff)
  have a1: "security_action ?ds = ?ds1"
    and a2: "energy_saving_action ?ds1
               = [Camera quiet_camera, Door (unlocked_door_on\<lparr>locked := True\<rparr>),
                  Light (set_brightness bright_light 0)]"
    by (simp_all add: security_action_def energy_saving_action_def)
  have pass: "apply_every_rule (rules example_system) (devices example_system)
                (snd (time_time tick_clock))
              = ([True, True],
                 [create_security_rule\<lparr>last_triggered := Some 1001\<rparr>,
                  create_energy_saving_rule\<lparr>last_triggered := Some 1002\<rparr>],
                 [Camera quiet_camera, Door (unlocked_door_on\<lparr>locked := True\<rparr>),
                  Light (set_brightness bright_light 0)],
                 snd (time_time (snd (time_time (snd (time_time tick_clock))))))"
    using c1 c2
    by (simp add: example_system_fields apply_fires create_security_rule_def
          create_energy_saving_rule_def a1 a2 time_time_def tick_clock_def)
  have on: "execute_rules example_system tick_clock
              = (example_system
                   \<lparr>last_execution := 1000,
                    rules := [create_security_rule\<lparr>last_triggered := Some 1001\<rparr>,
                              create_energy_saving_rule\<lparr>last_triggered := Some 1002\<rparr>],
                    devices := [Camera quiet_camera, Door (unlocked_door_on\<lparr>locked := True\<rparr>),
                                Light (set_brightness bright_light 0)]\<rparr>,
                 snd (time_time (snd (time_time (snd (time_time tick_clock))))))"
    using execute_rules_contract [of example_system tick_clock]
    by (simp add: pass example_system_fields(3))
  have off: "execute_rules (snd (AutomationSystem_toggle example_system)) tick_clock
               = (snd (AutomationSystem_toggle example_system), tick_clock)"
    using execute_rules_contract [of "snd (AutomationSystem_toggle example_system)" tick_clock]
    by (simp add: example_system_fields(4))
  show ?thesis
    by (simp add: on off)
qed

end
